theory Spec2Isabelle
  imports Main "HOL-Library.Word"
begin

section \<open>Errors of the cache package (errors.go, memory.go)\<close>

text \<open>
  A Go \<open>error\<close> value is modelled by the datatype \<open>error\<close>; the nil error is \<open>None\<close> of
  \<open>error option\<close>.
  \<^item> \<open>NotFoundError k\<close> is a \<open>*NotFoundError\<close> with field \<open>Key = k\<close>;
  \<^item> \<open>ErrNotFound\<close> is the package variable \<open>ErrNotFound\<close> (one fixed pointer, so it is
    equal only to itself);
  \<^item> \<open>ErrorString m\<close> is any other error without an \<open>Unwrap\<close> method whose \<open>Error()\<close>
    is \<open>m\<close> (what \<open>errors.New(m)\<close> returns, a driver or serialization error);
  \<^item> \<open>Wrapped m e\<close> is an error with message \<open>m\<close> whose \<open>Unwrap()\<close> returns \<open>e\<close>
    (what \<open>fmt.Errorf\<close> with \<open>%w\<close> returns).
\<close>

type_synonym key = string
type_synonym bytes = string

datatype error =
    NotFoundError key
  | ErrNotFound
  | ErrorString string
  | Wrapped string error

fun Error :: "error \<Rightarrow> string" where
  "Error (NotFoundError k) = ''cache: key not found: '' @ k"
| "Error ErrNotFound = ''cache: key not found''"
| "Error (ErrorString m) = m"
| "Error (Wrapped m e) = m"

text \<open>\<open>errors.As(err, &notFoundErr)\<close> with a target of type \<open>*NotFoundError\<close>: walks the
  \<open>Unwrap\<close> chain and succeeds at the first \<open>*NotFoundError\<close>.\<close>

fun errors_As_NotFoundError :: "error \<Rightarrow> bool" where
  "errors_As_NotFoundError (NotFoundError k) = True"
| "errors_As_NotFoundError (Wrapped m e) = errors_As_NotFoundError e"
| "errors_As_NotFoundError ErrNotFound = False"
| "errors_As_NotFoundError (ErrorString m) = False"

text \<open>\<open>errors.Is(err, ErrNotFound)\<close>: walks the \<open>Unwrap\<close> chain comparing each error with the
  sentinel.\<close>

fun errors_Is_ErrNotFound :: "error \<Rightarrow> bool" where
  "errors_Is_ErrNotFound ErrNotFound = True"
| "errors_Is_ErrNotFound (Wrapped m e) = errors_Is_ErrNotFound e"
| "errors_Is_ErrNotFound (NotFoundError k) = False"
| "errors_Is_ErrNotFound (ErrorString m) = False"

definition IsNotFound :: "error option \<Rightarrow> bool" where
  "IsNotFound err =
     (case err of
        None \<Rightarrow> False
      | Some e \<Rightarrow>
          if errors_As_NotFoundError e then True
          else if errors_Is_ErrNotFound e then True
          else if Error e = ''redis: nil'' then True
          else False)"


section \<open>Time\<close>

text \<open>
  A \<open>time.Time\<close> is modelled as the number of nanoseconds since Go's zero time (January 1,
  year 1, 00:00:00 UTC), so \<open>IsZero\<close> is \<open>t = 0\<close>. A \<open>time.Duration\<close> is a number of
  nanoseconds; in Go it is an \<open>int64\<close>. Each call of \<open>time.Now()\<close> is a parameter of the
  function that makes it.
\<close>

type_synonym Time = int
type_synonym Duration = int

definition minDuration :: Duration where
  "minDuration = - (2 ^ 63)"

definition maxDuration :: Duration where
  "maxDuration = 2 ^ 63 - 1"

text \<open>\<open>t.Sub(u)\<close> saturates at the ends of the \<open>Duration\<close> range; \<open>time.Until(t)\<close> is
  \<open>t.Sub(time.Now())\<close>.\<close>

definition Sub :: "Time \<Rightarrow> Time \<Rightarrow> Duration" where
  "Sub t u = (let d = t - u in
     if d < minDuration then minDuration else if maxDuration < d then maxDuration else d)"

definition Until :: "Time \<Rightarrow> Time \<Rightarrow> Duration" where
  "Until t now = Sub t now"

section \<open>encoding/json at the destination type int64\<close>

text \<open>
  \<open>IncrBy\<close> encodes and decodes an \<open>int64\<close> with \<open>json.Marshal\<close> and \<open>json.Unmarshal\<close>.
  \<open>json.Marshal\<close> of an \<open>int64\<close> is its decimal representation and never fails.
  \<open>json.Unmarshal\<close> into an \<open>*int64\<close> stores a value only when the input, with JSON white
  space stripped at both ends, is a JSON number without fraction or exponent that fits
  \<open>int64\<close>; on every other input (invalid JSON, \<open>null\<close>, a string, a fraction, an
  out-of-range number) the destination keeps its value. \<open>json_Unmarshal_int64\<close> returns the
  stored value, \<open>None\<close> when nothing is stored.
\<close>

definition digit_char :: "nat \<Rightarrow> char" where
  "digit_char d = ''0123456789'' ! d"

fun nat_dec :: "nat \<Rightarrow> string" where
  "nat_dec n = (if n < 10 then [digit_char n] else nat_dec (n div 10) @ [digit_char (n mod 10)])"

declare nat_dec.simps [simp del]

definition int_dec :: "int \<Rightarrow> string" where
  "int_dec i = (if i < 0 then CHR ''-'' # nat_dec (nat (- i)) else nat_dec (nat i))"

definition json_Marshal_int64 :: "64 word \<Rightarrow> bytes" where
  "json_Marshal_int64 w = int_dec (sint w)"

definition is_json_space :: "char \<Rightarrow> bool" where
  "is_json_space c = (c = CHR '' '' \<or> c = CHR 0x09 \<or> c = CHR 0x0A \<or> c = CHR 0x0D)"

definition json_trim :: "string \<Rightarrow> string" where
  "json_trim s = rev (dropWhile is_json_space (rev (dropWhile is_json_space s)))"

definition digit_of :: "char \<Rightarrow> int option" where
  "digit_of =
     map_of [(CHR ''0'', 0), (CHR ''1'', 1), (CHR ''2'', 2), (CHR ''3'', 3), (CHR ''4'', 4),
             (CHR ''5'', 5), (CHR ''6'', 6), (CHR ''7'', 7), (CHR ''8'', 8), (CHR ''9'', 9)]"

definition is_digit :: "char \<Rightarrow> bool" where
  "is_digit c = (digit_of c \<noteq> None)"

fun digits_val :: "int \<Rightarrow> string \<Rightarrow> int" where
  "digits_val acc [] = acc"
| "digits_val acc (c # cs) =
     digits_val (acc * 10 + (case digit_of c of Some d \<Rightarrow> d | None \<Rightarrow> 0)) cs"

definition json_int_literal :: "string \<Rightarrow> int option" where
  "json_int_literal s =
     (let neg = (case s of [] \<Rightarrow> False | c # r \<Rightarrow> c = CHR ''-'');
          ds = (if neg then tl s else s)
      in if ds = [] \<or> \<not> list_all is_digit ds \<or> (1 < length ds \<and> hd ds = CHR ''0'') then None
         else Some (if neg then - digits_val 0 ds else digits_val 0 ds))"

definition json_Unmarshal_int64 :: "bytes \<Rightarrow> 64 word option" where
  "json_Unmarshal_int64 data =
     (case json_int_literal (json_trim data) of
        None \<Rightarrow> None
      | Some n \<Rightarrow> if - (2 ^ 63) \<le> n \<and> n < 2 ^ 63 then Some (word_of_int n) else None)"

section \<open>The in-process store (memory.go)\<close>

text \<open>
  A \<open>cacheItem\<close> holds the encoded value and the absolute expiration; the zero time means
  that the entry never expires. The store is the map \<open>data\<close>; each operation runs under the
  store's lock, so it is modelled as one step from the map before to the map after. Every
  key owns its own \<open>cacheItem\<close> (each write allocates a fresh one), so the pointer in the
  Go map is modelled by the item itself.
\<close>

record cacheItem =
  item_value :: bytes
  expiresAt :: Time

definition isExpired :: "cacheItem \<Rightarrow> Time \<Rightarrow> bool" where
  "isExpired item now = (if expiresAt item = 0 then False else expiresAt item < now)"

type_synonym memoryCache = "key \<rightharpoonup> cacheItem"

text \<open>One pass of the background sweep of \<open>cleanup\<close>: every entry is visited once and
  deleted when it is expired at the clock reading taken at that visit (\<open>clk k\<close> for key
  \<open>k\<close>).\<close>

definition cleanup_pass :: "(key \<Rightarrow> Time) \<Rightarrow> memoryCache \<Rightarrow> memoryCache" where
  "cleanup_pass clk c =
     (\<lambda>k. case c k of
            None \<Rightarrow> None
          | Some item \<Rightarrow> if isExpired item (clk k) then None else Some item)"

text \<open>
  \<open>Get\<close> and \<open>Set\<close> encode a value of any Go type with \<open>json.Marshal\<close> and decode into
  the caller's destination with \<open>json.Unmarshal\<close>. Both belong to the standard library and
  are parameters here: \<open>marshal v\<close> is \<open>json.Marshal(v)\<close> and \<open>unmarshal b\<close> is the value
  found in the destination after \<open>json.Unmarshal(b, dest)\<close> or the error it returns.
\<close>

definition memoryCache_Get ::
  "(bytes \<Rightarrow> error + 'v) \<Rightarrow> memoryCache \<Rightarrow> Time \<Rightarrow> key \<Rightarrow> error + 'v" where
  "memoryCache_Get unmarshal c now k =
     (case c k of
        None \<Rightarrow> Inl (NotFoundError k)
      | Some item \<Rightarrow>
          if isExpired item now then Inl (NotFoundError k) else unmarshal (item_value item))"

definition memoryCache_Set ::
  "('v \<Rightarrow> error + bytes) \<Rightarrow> memoryCache \<Rightarrow> Time \<Rightarrow> key \<Rightarrow> 'v \<Rightarrow> Duration
     \<Rightarrow> error option \<times> memoryCache" where
  "memoryCache_Set marshal c now k v ttl =
     (case marshal v of
        Inl err \<Rightarrow> (Some err, c)
      | Inr data \<Rightarrow>
          (None, c(k \<mapsto> \<lparr>item_value = data, expiresAt = (if 0 < ttl then now + ttl else 0)\<rparr>)))"

definition memoryCache_Delete :: "memoryCache \<Rightarrow> key \<Rightarrow> error option \<times> memoryCache" where
  "memoryCache_Delete c k = (None, c(k := None))"

definition memoryCache_Exists :: "memoryCache \<Rightarrow> Time \<Rightarrow> key \<Rightarrow> bool \<times> error option" where
  "memoryCache_Exists c now k =
     (case c k of
        None \<Rightarrow> (False, None)
      | Some item \<Rightarrow> if isExpired item now then (False, None) else (True, None))"

text \<open>\<open>MSet\<close> walks the items in the iteration order of the Go map, given here as a list;
  an item that cannot be encoded ends the walk with the items before it written.\<close>

fun memoryCache_MSet ::
  "('v \<Rightarrow> error + bytes) \<Rightarrow> memoryCache \<Rightarrow> Time \<Rightarrow> (key \<times> 'v) list \<Rightarrow> Duration
     \<Rightarrow> error option \<times> memoryCache" where
  "memoryCache_MSet marshal c now [] ttl = (None, c)"
| "memoryCache_MSet marshal c now ((k, v) # items) ttl =
     (case marshal v of
        Inl err \<Rightarrow> (Some err, c)
      | Inr data \<Rightarrow>
          memoryCache_MSet marshal
            (c(k \<mapsto> \<lparr>item_value = data, expiresAt = (if 0 < ttl then now + ttl else 0)\<rparr>))
            now items ttl)"

fun memoryCache_MDelete :: "memoryCache \<Rightarrow> key list \<Rightarrow> error option \<times> memoryCache" where
  "memoryCache_MDelete c [] = (None, c)"
| "memoryCache_MDelete c (k # ks) = memoryCache_MDelete (c(k := None)) ks"

text \<open>\<open>IncrBy\<close> returns the new counter, the error (always nil) and the new map. The counter
  is an \<open>int64\<close>, so the addition wraps.\<close>

definition memoryCache_IncrBy ::
  "memoryCache \<Rightarrow> Time \<Rightarrow> key \<Rightarrow> 64 word \<Rightarrow> (64 word \<times> error option) \<times> memoryCache" where
  "memoryCache_IncrBy c now k val =
     (let current0 =
            (case c k of
               None \<Rightarrow> 0
             | Some item \<Rightarrow>
                 if \<not> isExpired item now
                 then (case json_Unmarshal_int64 (item_value item) of
                         None \<Rightarrow> 0
                       | Some n \<Rightarrow> n)
                 else 0);
          current = current0 + val;
          data = json_Marshal_int64 current
      in ((current, None), c(k \<mapsto> \<lparr>item_value = data, expiresAt = 0\<rparr>)))"

definition memoryCache_Incr ::
  "memoryCache \<Rightarrow> Time \<Rightarrow> key \<Rightarrow> (64 word \<times> error option) \<times> memoryCache" where
  "memoryCache_Incr c now k = memoryCache_IncrBy c now k 1"

definition memoryCache_DecrBy ::
  "memoryCache \<Rightarrow> Time \<Rightarrow> key \<Rightarrow> 64 word \<Rightarrow> (64 word \<times> error option) \<times> memoryCache" where
  "memoryCache_DecrBy c now k val = memoryCache_IncrBy c now k (- val)"

definition memoryCache_Decr ::
  "memoryCache \<Rightarrow> Time \<Rightarrow> key \<Rightarrow> (64 word \<times> error option) \<times> memoryCache" where
  "memoryCache_Decr c now k = memoryCache_DecrBy c now k 1"

definition memoryCache_SetNX ::
  "('v \<Rightarrow> error + bytes) \<Rightarrow> memoryCache \<Rightarrow> Time \<Rightarrow> key \<Rightarrow> 'v \<Rightarrow> Duration
     \<Rightarrow> (bool \<times> error option) \<times> memoryCache" where
  "memoryCache_SetNX marshal c now k v ttl =
     (if (case c k of None \<Rightarrow> False | Some item \<Rightarrow> \<not> isExpired item now)
      then ((False, None), c)
      else (case marshal v of
              Inl err \<Rightarrow> ((False, Some err), c)
            | Inr data \<Rightarrow>
                ((True, None),
                 c(k \<mapsto> \<lparr>item_value = data,
                          expiresAt = (if 0 < ttl then now + ttl else 0)\<rparr>))))"

definition memoryCache_Expire ::
  "memoryCache \<Rightarrow> Time \<Rightarrow> key \<Rightarrow> Duration \<Rightarrow> error option \<times> memoryCache" where
  "memoryCache_Expire c now k ttl =
     (case c k of
        None \<Rightarrow> (None, c)
      | Some item \<Rightarrow> (None, c(k \<mapsto> item\<lparr>expiresAt := now + ttl\<rparr>)))"

text \<open>\<open>TTL\<close> reads the clock twice: \<open>now1\<close> in \<open>isExpired\<close> and \<open>now2\<close> in
  \<open>time.Until\<close>.\<close>

definition memoryCache_TTL ::
  "memoryCache \<Rightarrow> Time \<Rightarrow> Time \<Rightarrow> key \<Rightarrow> Duration \<times> error option" where
  "memoryCache_TTL c now1 now2 k =
     (case c k of
        None \<Rightarrow> (- 2, None)
      | Some item \<Rightarrow>
          if expiresAt item = 0 then (- 1, None)
          else if isExpired item now1 then (- 2, None)
          else (Until (expiresAt item) now2, None))"

section \<open>The multi-level orchestrator (cache.go, multi.go)\<close>

text \<open>
  A tier is any implementation of the interface \<open>Cache\<close>. An implementation is a record of
  operations over its own state \<open>'s\<close>; every operation returns what the Go method returns
  together with the state after the call. \<open>iGet\<close> returns the error or the value left in
  the destination. A method that returns a pair in Go returns the pair here, so a failing
  \<open>TTL\<close> still carries a duration. A level of the orchestrator is an implementation with
  its current state, and \<open>multiLevelCache\<close> is the list \<open>levels\<close>.
\<close>

record ('s, 'v) Cache =
  iGet :: "key \<Rightarrow> 's \<Rightarrow> (error + 'v) \<times> 's"
  iSet :: "key \<Rightarrow> 'v \<Rightarrow> Duration \<Rightarrow> 's \<Rightarrow> error option \<times> 's"
  iDelete :: "key \<Rightarrow> 's \<Rightarrow> error option \<times> 's"
  iMSet :: "(key \<times> 'v) list \<Rightarrow> Duration \<Rightarrow> 's \<Rightarrow> error option \<times> 's"
  iMDelete :: "key list \<Rightarrow> 's \<Rightarrow> error option \<times> 's"
  iIncrBy :: "key \<Rightarrow> 64 word \<Rightarrow> 's \<Rightarrow> (64 word \<times> error option) \<times> 's"
  iExpire :: "key \<Rightarrow> Duration \<Rightarrow> 's \<Rightarrow> error option \<times> 's"
  iTTL :: "key \<Rightarrow> 's \<Rightarrow> (Duration \<times> error option) \<times> 's"

type_synonym ('s, 'v) level = "('s, 'v) Cache \<times> 's"
type_synonym ('s, 'v) multiLevelCache = "('s, 'v) level list"

text \<open>A method call on a level: the result and the level with its state after the call.\<close>

definition on_level ::
  "(('s, 'v) Cache \<Rightarrow> 's \<Rightarrow> 'r \<times> 's) \<Rightarrow> ('s, 'v) level \<Rightarrow> 'r \<times> ('s, 'v) level" where
  "on_level m l = (case m (fst l) (snd l) of (r, s') \<Rightarrow> (r, (fst l, s')))"

text \<open>The inner loop of \<open>Get\<close>, \<open>for j := 0; j < i; j++\<close>: \<open>Set\<close> on every level before
  the hit, the returned error dropped.\<close>

fun backfill :: "key \<Rightarrow> 'v \<Rightarrow> Duration \<Rightarrow> ('s, 'v) level list \<Rightarrow> ('s, 'v) level list" where
  "backfill k v ttl [] = []"
| "backfill k v ttl (l # ls) = snd (on_level (\<lambda>i. iSet i k v ttl) l) # backfill k v ttl ls"

text \<open>The outer loop of \<open>Get\<close>. \<open>visited\<close> holds the levels \<open>0..i-1\<close> already probed, so
  \<open>i > 0\<close> is \<open>0 < length visited\<close>.\<close>

fun Get_loop ::
  "('s, 'v) level list \<Rightarrow> ('s, 'v) level list \<Rightarrow> key \<Rightarrow> (error + 'v) \<times> ('s, 'v) level list" where
  "Get_loop visited [] k = (Inl (NotFoundError k), visited)"
| "Get_loop visited (l # rest) k =
     (case on_level (\<lambda>i. iGet i k) l of
        (Inr v, l1) \<Rightarrow>
          if 0 < length visited
          then (case on_level (\<lambda>i. iTTL i k) l1 of
                  ((ttl, terr), l2) \<Rightarrow>
                    if 0 < ttl then (Inr v, backfill k v ttl visited @ l2 # rest)
                    else (Inr v, visited @ l2 # rest))
          else (Inr v, visited @ l1 # rest)
      | (Inl err, l1) \<Rightarrow> Get_loop (visited @ [l1]) rest k)"

definition multiLevelCache_Get ::
  "('s, 'v) multiLevelCache \<Rightarrow> key \<Rightarrow> (error + 'v) \<times> ('s, 'v) multiLevelCache" where
  "multiLevelCache_Get c k = Get_loop [] c k"

text \<open>The loop shared by \<open>Set\<close>, \<open>Delete\<close>, \<open>MSet\<close>, \<open>MDelete\<close> and \<open>Expire\<close>:
  \<open>for _, level := range c.levels\<close> with the variable \<open>lastErr\<close>.\<close>

fun fan_out ::
  "(('s, 'v) level \<Rightarrow> error option \<times> ('s, 'v) level) \<Rightarrow> error option \<Rightarrow> ('s, 'v) level list
     \<Rightarrow> error option \<times> ('s, 'v) level list" where
  "fan_out m lastErr [] = (lastErr, [])"
| "fan_out m lastErr (l # ls) =
     (case m l of
        (err, l') \<Rightarrow>
          (case fan_out m (if err \<noteq> None then err else lastErr) ls of
             (r, ls') \<Rightarrow> (r, l' # ls')))"

definition multiLevelCache_Set ::
  "('s, 'v) multiLevelCache \<Rightarrow> key \<Rightarrow> 'v \<Rightarrow> Duration \<Rightarrow> error option \<times> ('s, 'v) multiLevelCache" where
  "multiLevelCache_Set c k v ttl = fan_out (on_level (\<lambda>i. iSet i k v ttl)) None c"

definition multiLevelCache_Delete ::
  "('s, 'v) multiLevelCache \<Rightarrow> key \<Rightarrow> error option \<times> ('s, 'v) multiLevelCache" where
  "multiLevelCache_Delete c k = fan_out (on_level (\<lambda>i. iDelete i k)) None c"

definition multiLevelCache_MSet ::
  "('s, 'v) multiLevelCache \<Rightarrow> (key \<times> 'v) list \<Rightarrow> Duration
     \<Rightarrow> error option \<times> ('s, 'v) multiLevelCache" where
  "multiLevelCache_MSet c items ttl = fan_out (on_level (\<lambda>i. iMSet i items ttl)) None c"

definition multiLevelCache_MDelete ::
  "('s, 'v) multiLevelCache \<Rightarrow> key list \<Rightarrow> error option \<times> ('s, 'v) multiLevelCache" where
  "multiLevelCache_MDelete c ks = fan_out (on_level (\<lambda>i. iMDelete i ks)) None c"

definition multiLevelCache_Expire ::
  "('s, 'v) multiLevelCache \<Rightarrow> key \<Rightarrow> Duration \<Rightarrow> error option \<times> ('s, 'v) multiLevelCache" where
  "multiLevelCache_Expire c k ttl = fan_out (on_level (\<lambda>i. iExpire i k ttl)) None c"

definition multiLevelCache_IncrBy ::
  "('s, 'v) multiLevelCache \<Rightarrow> key \<Rightarrow> 64 word
     \<Rightarrow> (64 word \<times> error option) \<times> ('s, 'v) multiLevelCache" where
  "multiLevelCache_IncrBy c k val =
     (if 0 < length c
      then (case on_level (\<lambda>i. iIncrBy i k val) (last c) of (r, l') \<Rightarrow> (r, butlast c @ [l']))
      else ((0, None), c))"

definition multiLevelCache_TTL ::
  "('s, 'v) multiLevelCache \<Rightarrow> key \<Rightarrow> (Duration \<times> error option) \<times> ('s, 'v) multiLevelCache" where
  "multiLevelCache_TTL c k =
     (if 0 < length c
      then (case on_level (\<lambda>i. iTTL i k) (last c) of (r, l') \<Rightarrow> (r, butlast c @ [l']))
      else ((- 2, None), c))"

subsection \<open>The five fan-out mutations as one type\<close>

datatype 'v mutation =
    DoSet key 'v Duration
  | DoMSet "(key \<times> 'v) list" Duration
  | DoDelete key
  | DoMDelete "key list"
  | DoExpire key Duration

text \<open>What a mutation asks of one tier, and what it asks of the orchestrator.\<close>

fun on_tier :: "'v mutation \<Rightarrow> ('s, 'v) level \<Rightarrow> error option \<times> ('s, 'v) level" where
  "on_tier (DoSet k v ttl) l = on_level (\<lambda>i. iSet i k v ttl) l"
| "on_tier (DoMSet items ttl) l = on_level (\<lambda>i. iMSet i items ttl) l"
| "on_tier (DoDelete k) l = on_level (\<lambda>i. iDelete i k) l"
| "on_tier (DoMDelete ks) l = on_level (\<lambda>i. iMDelete i ks) l"
| "on_tier (DoExpire k ttl) l = on_level (\<lambda>i. iExpire i k ttl) l"

fun multiLevelCache_do ::
  "'v mutation \<Rightarrow> ('s, 'v) multiLevelCache \<Rightarrow> error option \<times> ('s, 'v) multiLevelCache" where
  "multiLevelCache_do (DoSet k v ttl) c = multiLevelCache_Set c k v ttl"
| "multiLevelCache_do (DoMSet items ttl) c = multiLevelCache_MSet c items ttl"
| "multiLevelCache_do (DoDelete k) c = multiLevelCache_Delete c k"
| "multiLevelCache_do (DoMDelete ks) c = multiLevelCache_MDelete c ks"
| "multiLevelCache_do (DoExpire k ttl) c = multiLevelCache_Expire c k ttl"

subsection \<open>Two implementations of the interface\<close>

text \<open>The in-process store behind the interface, with the clock reading \<open>now\<close> in each
  call.\<close>

definition memoryCache_tier ::
  "('v \<Rightarrow> error + bytes) \<Rightarrow> (bytes \<Rightarrow> error + 'v) \<Rightarrow> Time \<Rightarrow> (memoryCache, 'v) Cache" where
  "memoryCache_tier marshal unmarshal now =
     \<lparr> iGet = (\<lambda>k c. (memoryCache_Get unmarshal c now k, c)),
       iSet = (\<lambda>k v ttl c. memoryCache_Set marshal c now k v ttl),
       iDelete = (\<lambda>k c. memoryCache_Delete c k),
       iMSet = (\<lambda>items ttl c. memoryCache_MSet marshal c now items ttl),
       iMDelete = (\<lambda>ks c. memoryCache_MDelete c ks),
       iIncrBy = (\<lambda>k val c. memoryCache_IncrBy c now k val),
       iExpire = (\<lambda>k ttl c. memoryCache_Expire c now k ttl),
       iTTL = (\<lambda>k c. (memoryCache_TTL c now now k, c)) \<rparr>"

text \<open>A tier whose backend cannot be reached: every call fails with the driver's error
  \<open>err\<close>, returns Go's zero values beside it and changes nothing.\<close>

definition unreachable_tier :: "error \<Rightarrow> ('s, 'v) Cache" where
  "unreachable_tier err =
     \<lparr> iGet = (\<lambda>k s. (Inl err, s)),
       iSet = (\<lambda>k v ttl s. (Some err, s)),
       iDelete = (\<lambda>k s. (Some err, s)),
       iMSet = (\<lambda>items ttl s. (Some err, s)),
       iMDelete = (\<lambda>ks s. (Some err, s)),
       iIncrBy = (\<lambda>k val s. ((0, Some err), s)),
       iExpire = (\<lambda>k ttl s. (Some err, s)),
       iTTL = (\<lambda>k s. ((0, Some err), s)) \<rparr>"

text \<open>\<open>json.Marshal\<close> and \<open>json.Unmarshal\<close> at the type \<open>int64\<close>, in the shape the store's
  \<open>Get\<close> and \<open>Set\<close> take them.\<close>

definition marshal_int64 :: "64 word \<Rightarrow> error + bytes" where
  "marshal_int64 w = Inr (json_Marshal_int64 w)"

definition unmarshal_int64 :: "bytes \<Rightarrow> error + 64 word" where
  "unmarshal_int64 b =
     (case json_Unmarshal_int64 b of
        None \<Rightarrow> Inl (ErrorString ''json: cannot unmarshal into Go value of type int64'')
      | Some n \<Rightarrow> Inr n)"

section \<open>Properties of the error predicate\<close>





section \<open>Properties of the in-process store\<close>

lemmas json_int64_simps =
  json_Marshal_int64_def int_dec_def nat_dec.simps digit_char_def
  json_Unmarshal_int64_def json_int_literal_def json_trim_def is_json_space_def
  is_digit_def digit_of_def marshal_int64_def unmarshal_int64_def

lemma IncrBy_entry_has_no_expiration:
  "map_option expiresAt (snd (memoryCache_IncrBy c now k d) k) = Some 0"
  by (simp add: memoryCache_IncrBy_def Let_def)

text \<open>
  C10. For every store, clock reading, key and delta, \<open>IncrBy\<close>, \<open>Incr\<close>, \<open>DecrBy\<close> and
  \<open>Decr\<close> return a nil error. When the unexpired entry under the key holds bytes that do
  not decode to an \<open>int64\<close>, the decoding error is dropped, the counter starts from 0, the
  call returns the delta and the entry is overwritten with the encoded delta.
\<close>

theorem IncrBy_error_always_nil:
  "snd (fst (memoryCache_IncrBy c now k d)) = None
   \<and> snd (fst (memoryCache_Incr c now k)) = None
   \<and> snd (fst (memoryCache_DecrBy c now k d)) = None
   \<and> snd (fst (memoryCache_Decr c now k)) = None
   \<and> (c k = Some item \<and> \<not> isExpired item now \<and> json_Unmarshal_int64 (item_value item) = None
        \<longrightarrow> fst (fst (memoryCache_IncrBy c now k d)) = d
            \<and> map_option item_value (snd (memoryCache_IncrBy c now k d) k)
                = Some (json_Marshal_int64 d))"
  by (simp add: memoryCache_IncrBy_def memoryCache_Incr_def memoryCache_DecrBy_def
      memoryCache_Decr_def Let_def)

theorem IncrBy_error_always_nil_witness:
  "[''hits'' \<mapsto> \<lparr>item_value = ''1.5'', expiresAt = 0\<rparr>] ''hits''
     = Some \<lparr>item_value = ''1.5'', expiresAt = 0\<rparr>
   \<and> \<not> isExpired \<lparr>item_value = ''1.5'', expiresAt = 0\<rparr> 1000
   \<and> json_Unmarshal_int64 ''1.5'' = None
   \<and> memoryCache_IncrBy [''hits'' \<mapsto> \<lparr>item_value = ''1.5'', expiresAt = 0\<rparr>] 1000 ''hits'' 5
        = ((5, None), [''hits'' \<mapsto> \<lparr>item_value = ''5'', expiresAt = 0\<rparr>])"
proof -
  let ?item = "\<lparr>item_value = ''1.5'', expiresAt = 0\<rparr>"
  let ?c = "[''hits'' \<mapsto> ?item]"
  have h: "?c ''hits'' = Some ?item \<and> \<not> isExpired ?item 1000
           \<and> json_Unmarshal_int64 (item_value ?item) = None"
    by (simp add: isExpired_def json_int64_simps)
  from IncrBy_error_always_nil [of ?c 1000 "''hits''" 5 ?item] h
  have "fst (fst (memoryCache_IncrBy ?c 1000 ''hits'' 5)) = 5" by blast
  moreover have "memoryCache_IncrBy ?c 1000 ''hits'' 5
        = ((5, None), [''hits'' \<mapsto> \<lparr>item_value = ''5'', expiresAt = 0\<rparr>])"
    by (simp add: memoryCache_IncrBy_def isExpired_def json_int64_simps Let_def)
  ultimately show ?thesis using h by simp
qed

text \<open>
  C2. The store at the input \<open>Set("counter", 10, 60)\<close> at clock reading 1000 followed by
  \<open>Decr("counter")\<close> at 1001: before the decrement the entry expires at 1060; the
  decrement returns 9 and writes a fresh entry with the zero expiration, so that \<open>TTL\<close>
  reports \<open>-1\<close> (no expiration) afterwards. The expiration is not left unchanged.
\<close>

theorem Incr_discards_expiration:
  "map_option expiresAt
     (snd (memoryCache_Set marshal_int64 Map.empty 1000 ''counter'' 10 60) ''counter'') = Some 1060
   \<and> memoryCache_Decr (snd (memoryCache_Set marshal_int64 Map.empty 1000 ''counter'' 10 60))
        1001 ''counter''
      = ((9, None), [''counter'' \<mapsto> \<lparr>item_value = ''9'', expiresAt = 0\<rparr>])
   \<and> memoryCache_TTL
        (snd (memoryCache_Decr (snd (memoryCache_Set marshal_int64 Map.empty 1000 ''counter'' 10 60))
           1001 ''counter'')) 1002 1002 ''counter'' = (- 1, None)"
  by (simp add: memoryCache_Decr_def memoryCache_DecrBy_def memoryCache_IncrBy_def
      memoryCache_Set_def memoryCache_TTL_def isExpired_def json_int64_simps Let_def)

lemma Sub_exact:
  "minDuration \<le> t - u \<Longrightarrow> t - u \<le> maxDuration \<Longrightarrow> Sub t u = t - u"
  by (simp add: Sub_def Let_def)

lemma Sub_positive: "u < t \<Longrightarrow> 0 < Sub t u"
  by (simp add: Sub_def Let_def minDuration_def maxDuration_def)

lemma Sub_same: "Sub t t = 0"
  by (simp add: Sub_def Let_def minDuration_def maxDuration_def)

text \<open>
  C6, at the expiration instant. \<open>Set("k", 7, 60)\<close> at clock reading 1000 gives the entry
  the expiration 1060. At the reading 1060 the entry is not expired (\<open>After\<close> is strict,
  \<open>Exists\<close> answers true), it has an expiration, and \<open>TTL\<close> returns 0, which is none of
  \<open>-2\<close>, \<open>-1\<close> or a positive duration.
\<close>

theorem TTL_zero_at_expiration:
  "map_option expiresAt
     (snd (memoryCache_Set marshal_int64 Map.empty 1000 ''k'' 7 60) ''k'') = Some 1060
   \<and> memoryCache_Exists (snd (memoryCache_Set marshal_int64 Map.empty 1000 ''k'' 7 60)) 1060 ''k''
       = (True, None)
   \<and> memoryCache_TTL (snd (memoryCache_Set marshal_int64 Map.empty 1000 ''k'' 7 60)) 1060 1060 ''k''
       = (0, None)
   \<and> \<not> 0 < fst (memoryCache_TTL
                  (snd (memoryCache_Set marshal_int64 Map.empty 1000 ''k'' 7 60)) 1060 1060 ''k'')"
  by (simp add: memoryCache_Set_def memoryCache_Exists_def memoryCache_TTL_def isExpired_def
      marshal_int64_def Until_def Sub_same)

text \<open>
  C6, as amended. \<open>TTL\<close> returns \<open>-2\<close> with a nil error when the key is absent or its
  entry has expired, and \<open>-1\<close> with a nil error when the entry has no expiration (as after
  \<open>Set\<close> with \<open>ttl \<le> 0\<close>). Otherwise it returns \<open>time.Until(expiresAt)\<close> at the second
  clock reading \<open>now2\<close>: the remaining duration \<open>expiresAt - now2\<close> whenever that fits a
  \<open>Duration\<close>, positive while \<open>now2\<close> is before the expiration and 0 at the expiration
  instant itself.
\<close>

theorem memoryCache_TTL_cases:
  "(c k = None \<longrightarrow> memoryCache_TTL c now1 now2 k = (- 2, None))
   \<and> (c k = Some item \<and> expiresAt item = 0 \<longrightarrow> memoryCache_TTL c now1 now2 k = (- 1, None))
   \<and> (c k = Some item \<and> expiresAt item \<noteq> 0 \<and> expiresAt item < now1
        \<longrightarrow> memoryCache_TTL c now1 now2 k = (- 2, None))
   \<and> (c k = Some item \<and> expiresAt item \<noteq> 0 \<and> now1 \<le> expiresAt item
        \<longrightarrow> memoryCache_TTL c now1 now2 k = (Until (expiresAt item) now2, None)
            \<and> (now2 < expiresAt item \<longrightarrow> 0 < fst (memoryCache_TTL c now1 now2 k))
            \<and> (now2 = expiresAt item \<longrightarrow> fst (memoryCache_TTL c now1 now2 k) = 0)
            \<and> (minDuration \<le> expiresAt item - now2 \<and> expiresAt item - now2 \<le> maxDuration
                 \<longrightarrow> fst (memoryCache_TTL c now1 now2 k) = expiresAt item - now2))
   \<and> (marshal v = Inr b \<and> ttl \<le> 0
        \<longrightarrow> memoryCache_TTL (snd (memoryCache_Set marshal c now k v ttl)) now1 now2 k = (- 1, None))"
  by (simp add: memoryCache_TTL_def memoryCache_Set_def isExpired_def Until_def Sub_exact
      Sub_positive Sub_same)

theorem memoryCache_TTL_cases_witness:
  "memoryCache_TTL Map.empty 1000 1000 ''nonexistent'' = (- 2, None)
   \<and> memoryCache_TTL [''key2'' \<mapsto> \<lparr>item_value = ''7'', expiresAt = 0\<rparr>] 1000 1000 ''key2''
        = (- 1, None)
   \<and> memoryCache_TTL [''key1'' \<mapsto> \<lparr>item_value = ''7'', expiresAt = 1060\<rparr>] 1061 1061 ''key1''
        = (- 2, None)
   \<and> memoryCache_TTL [''key1'' \<mapsto> \<lparr>item_value = ''7'', expiresAt = 1060\<rparr>] 1002 1002 ''key1''
        = (58, None)
   \<and> memoryCache_TTL (snd (memoryCache_Set marshal_int64 Map.empty 1000 ''key2'' 7 0))
        1000 1000 ''key2'' = (- 1, None)"
proof -
  let ?i0 = "\<lparr>item_value = ''7'', expiresAt = 0\<rparr>"
  let ?i1 = "\<lparr>item_value = ''7'', expiresAt = 1060\<rparr>"
  note inst = memoryCache_TTL_cases [where marshal = marshal_int64 and v = 7
      and b = "json_Marshal_int64 7" and ttl = 0 and now = 1000]
  have a: "memoryCache_TTL Map.empty 1000 1000 ''nonexistent'' = (- 2, None)"
    using inst [where c = Map.empty and k = "''nonexistent''" and ?now1.0 = 1000
        and ?now2.0 = 1000 and item = ?i0]
    by simp
  have b: "memoryCache_TTL [''key2'' \<mapsto> ?i0] 1000 1000 ''key2'' = (- 1, None)"
    using inst [where c = "[''key2'' \<mapsto> ?i0]" and k = "''key2''" and ?now1.0 = 1000
        and ?now2.0 = 1000 and item = ?i0]
    by simp
  have c: "memoryCache_TTL [''key1'' \<mapsto> ?i1] 1061 1061 ''key1'' = (- 2, None)"
    using inst [where c = "[''key1'' \<mapsto> ?i1]" and k = "''key1''" and ?now1.0 = 1061
        and ?now2.0 = 1061 and item = ?i1]
    by simp
  have d: "memoryCache_TTL [''key1'' \<mapsto> ?i1] 1002 1002 ''key1'' = (58, None)"
    using inst [where c = "[''key1'' \<mapsto> ?i1]" and k = "''key1''" and ?now1.0 = 1002
        and ?now2.0 = 1002 and item = ?i1]
    by (simp add: minDuration_def maxDuration_def prod_eq_iff)
  have e: "memoryCache_TTL (snd (memoryCache_Set marshal_int64 Map.empty 1000 ''key2'' 7 0))
        1000 1000 ''key2'' = (- 1, None)"
    using inst [where c = Map.empty and k = "''key2''" and ?now1.0 = 1000
        and ?now2.0 = 1000 and item = ?i0]
    by (simp add: marshal_int64_def)
  from a b c d e show ?thesis by simp
qed


lemma Get_absent: "c k = None \<Longrightarrow> memoryCache_Get unmarshal c now k = Inl (NotFoundError k)"
  by (simp add: memoryCache_Get_def)

lemma cleanup_pass_at:
  "cleanup_pass clk c k = (case c k of None \<Rightarrow> None
     | Some item \<Rightarrow> if isExpired item (clk k) then None else Some item)"
  by (simp add: cleanup_pass_def)

text \<open>
  C4. Let \<open>ttl > 0\<close>, let the value encode to \<open>b\<close> and \<open>b\<close> decode to the value again, and
  let \<open>Set\<close> run at a clock reading after the zero time. Then \<open>Set\<close> succeeds, and \<open>Get\<close> at
  any reading up to \<open>now + ttl\<close> (in particular at once) returns the value, also when a sweep
  pass ran before the entry's expiration; \<open>Get\<close> at any reading after \<open>now + ttl\<close> returns
  the \<open>NotFoundError\<close> of the key, which \<open>IsNotFound\<close> accepts, whether or not a sweep pass
  has visited the entry, whenever that pass ran.
\<close>

theorem Set_then_Get:
  assumes "0 < ttl" and "0 < now" and "marshal v = Inr b" and "unmarshal b = Inr v"
  shows "memoryCache_Set marshal c now k v ttl
           = (None, c(k \<mapsto> \<lparr>item_value = b, expiresAt = now + ttl\<rparr>))
     \<and> (\<forall>now'. now' \<le> now + ttl \<longrightarrow>
           memoryCache_Get unmarshal (snd (memoryCache_Set marshal c now k v ttl)) now' k = Inr v)
     \<and> (\<forall>now' clk. now' \<le> now + ttl \<and> clk k \<le> now + ttl \<longrightarrow>
           memoryCache_Get unmarshal
             (cleanup_pass clk (snd (memoryCache_Set marshal c now k v ttl))) now' k = Inr v)
     \<and> (\<forall>now'. now + ttl < now' \<longrightarrow>
           memoryCache_Get unmarshal (snd (memoryCache_Set marshal c now k v ttl)) now' k
             = Inl (NotFoundError k))
     \<and> (\<forall>now' clk. now + ttl < now' \<longrightarrow>
           memoryCache_Get unmarshal
             (cleanup_pass clk (snd (memoryCache_Set marshal c now k v ttl))) now' k
             = Inl (NotFoundError k))
     \<and> IsNotFound (Some (NotFoundError k))"
proof -
  let ?item = "\<lparr>item_value = b, expiresAt = now + ttl\<rparr>"
  let ?c = "c(k \<mapsto> ?item)"
  have set: "memoryCache_Set marshal c now k v ttl = (None, ?c)"
    using assms by (simp add: memoryCache_Set_def)
  have nz: "now + ttl \<noteq> 0" using assms by simp
  have live: "memoryCache_Get unmarshal ?c now' k = Inr v" if "now' \<le> now + ttl" for now'
    using that assms(4) by (simp add: memoryCache_Get_def isExpired_def)
  have dead: "memoryCache_Get unmarshal ?c now' k = Inl (NotFoundError k)"
    if "now + ttl < now'" for now'
    using that nz by (simp add: memoryCache_Get_def isExpired_def)
  have swept_live: "memoryCache_Get unmarshal (cleanup_pass clk ?c) now' k = Inr v"
    if "now' \<le> now + ttl" and "clk k \<le> now + ttl" for now' clk
  proof -
    have "cleanup_pass clk ?c k = Some ?item"
      using that by (simp add: cleanup_pass_at isExpired_def)
    then show ?thesis
      using that assms(4) by (simp add: memoryCache_Get_def isExpired_def)
  qed
  have swept_dead: "memoryCache_Get unmarshal (cleanup_pass clk ?c) now' k = Inl (NotFoundError k)"
    if "now + ttl < now'" for now' clk
  proof (cases "isExpired ?item (clk k)")
    case True
    then have "cleanup_pass clk ?c k = None" by (simp add: cleanup_pass_at)
    then show ?thesis by (rule Get_absent)
  next
    case False
    then have "cleanup_pass clk ?c k = Some ?item" by (simp add: cleanup_pass_at)
    then show ?thesis
      using that nz by (simp add: memoryCache_Get_def isExpired_def)
  qed
  have nf: "IsNotFound (Some (NotFoundError k))" by (simp add: IsNotFound_def)
  show ?thesis
    unfolding set snd_conv using live dead swept_live swept_dead nf by blast
qed

theorem Set_then_Get_witness:
  "(0::int) < 60 \<and> (0::int) < 1000
   \<and> marshal_int64 42 = Inr ''42'' \<and> unmarshal_int64 ''42'' = Inr 42
   \<and> memoryCache_Get unmarshal_int64
        (snd (memoryCache_Set marshal_int64 Map.empty 1000 ''key1'' 42 60)) 1000 ''key1'' = Inr 42
   \<and> memoryCache_Get unmarshal_int64
        (snd (memoryCache_Set marshal_int64 Map.empty 1000 ''key1'' 42 60)) 1061 ''key1''
        = Inl (NotFoundError ''key1'')
   \<and> memoryCache_Get unmarshal_int64
        (cleanup_pass (\<lambda>k. 1061) (snd (memoryCache_Set marshal_int64 Map.empty 1000 ''key1'' 42 60)))
        1061 ''key1'' = Inl (NotFoundError ''key1'')"
proof -
  have h1: "(0::int) < 60" and h2: "(0::int) < 1000" by simp_all
  have h3: "marshal_int64 42 = Inr ''42''" by (simp add: json_int64_simps)
  have h4: "unmarshal_int64 ''42'' = Inr 42" by (simp add: json_int64_simps)
  note t = Set_then_Get [where c = Map.empty and k = "''key1''" and ttl = 60 and now = 1000
      and marshal = marshal_int64 and unmarshal = unmarshal_int64 and v = 42 and b = "''42''",
      OF h1 h2 h3 h4]
  let ?c = "snd (memoryCache_Set marshal_int64 Map.empty 1000 ''key1'' 42 60)"
  from t have "\<forall>now'. now' \<le> 1000 + 60 \<longrightarrow>
      memoryCache_Get unmarshal_int64 ?c now' ''key1'' = Inr 42"
    by (elim conjE)
  then have a: "memoryCache_Get unmarshal_int64 ?c 1000 ''key1'' = Inr 42"
    by simp
  from t have "\<forall>now'. 1000 + 60 < now' \<longrightarrow>
      memoryCache_Get unmarshal_int64 ?c now' ''key1'' = Inl (NotFoundError ''key1'')"
    by (elim conjE)
  then have b: "memoryCache_Get unmarshal_int64 ?c 1061 ''key1'' = Inl (NotFoundError ''key1'')"
    by simp
  from t have "\<forall>now' clk. 1000 + 60 < now' \<longrightarrow>
      memoryCache_Get unmarshal_int64 (cleanup_pass clk ?c) now' ''key1''
        = Inl (NotFoundError ''key1'')"
    by (elim conjE)
  then have c: "memoryCache_Get unmarshal_int64 (cleanup_pass (\<lambda>k. 1061) ?c) 1061 ''key1''
        = Inl (NotFoundError ''key1'')"
    by simp
  from a b c h3 h4 show ?thesis by simp
qed

text \<open>
  C5. \<open>SetNX\<close> on a key whose entry is present and unexpired returns \<open>(false, nil)\<close> and
  leaves the store as it was; on an absent or expired key whose value encodes it returns
  \<open>(true, nil)\<close> and writes the entry. It returns true only when the key was absent or
  expired, with a nil error and the entry written by this call, and whenever it returns
  false the store is unchanged. Hence on a fresh key a first \<open>SetNX(k, v1, ttl)\<close> returns
  \<open>(true, nil)\<close>, a second \<open>SetNX(k, v2, ttl2)\<close> while the entry is unexpired returns
  \<open>(false, nil)\<close> and changes nothing, and \<open>Get(k)\<close> still yields \<open>v1\<close>.
\<close>

theorem SetNX_creates_once:
  "(c k = Some item \<and> \<not> isExpired item now
      \<longrightarrow> memoryCache_SetNX marshal c now k v ttl = ((False, None), c))
   \<and> ((c k = None \<or> (c k = Some item \<and> isExpired item now)) \<and> marshal v = Inr b
      \<longrightarrow> memoryCache_SetNX marshal c now k v ttl
            = ((True, None),
               c(k \<mapsto> \<lparr>item_value = b, expiresAt = (if 0 < ttl then now + ttl else 0)\<rparr>)))
   \<and> (fst (fst (memoryCache_SetNX marshal c now k v ttl))
      \<longrightarrow> (c k = None \<or> (\<exists>old. c k = Some old \<and> isExpired old now))
          \<and> snd (fst (memoryCache_SetNX marshal c now k v ttl)) = None
          \<and> (\<exists>data. marshal v = Inr data
                \<and> snd (memoryCache_SetNX marshal c now k v ttl) k
                    = Some \<lparr>item_value = data,
                            expiresAt = (if 0 < ttl then now + ttl else 0)\<rparr>))
   \<and> (\<not> fst (fst (memoryCache_SetNX marshal c now k v ttl))
      \<longrightarrow> snd (memoryCache_SetNX marshal c now k v ttl) = c)
   \<and> (c k = None \<and> marshal v1 = Inr b1 \<and> unmarshal b1 = Inr v1
        \<and> (0 < ttl \<longrightarrow> now' \<le> now + ttl)
      \<longrightarrow> fst (memoryCache_SetNX marshal c now k v1 ttl) = (True, None)
          \<and> memoryCache_SetNX marshal (snd (memoryCache_SetNX marshal c now k v1 ttl)) now' k v2 ttl2
              = ((False, None), snd (memoryCache_SetNX marshal c now k v1 ttl))
          \<and> memoryCache_Get unmarshal
               (snd (memoryCache_SetNX marshal
                       (snd (memoryCache_SetNX marshal c now k v1 ttl)) now' k v2 ttl2)) now' k
              = Inr v1)"
proof -
  have present: "memoryCache_SetNX marshal c now k v ttl = ((False, None), c)"
    if "c k = Some item" and "\<not> isExpired item now"
    using that by (simp add: memoryCache_SetNX_def)
  have create: "memoryCache_SetNX marshal c now k v ttl
            = ((True, None),
               c(k \<mapsto> \<lparr>item_value = b, expiresAt = (if 0 < ttl then now + ttl else 0)\<rparr>))"
    if "c k = None \<or> (c k = Some item \<and> isExpired item now)" and "marshal v = Inr b"
    using that by (auto simp add: memoryCache_SetNX_def)
  have only_if: "(c k = None \<or> (\<exists>old. c k = Some old \<and> isExpired old now))
          \<and> snd (fst (memoryCache_SetNX marshal c now k v ttl)) = None
          \<and> (\<exists>data. marshal v = Inr data
                \<and> snd (memoryCache_SetNX marshal c now k v ttl) k
                    = Some \<lparr>item_value = data,
                            expiresAt = (if 0 < ttl then now + ttl else 0)\<rparr>)"
    if "fst (fst (memoryCache_SetNX marshal c now k v ttl))"
    using that
    by (cases "c k"; cases "marshal v")
       (auto simp add: memoryCache_SetNX_def split: if_splits)
  have unchanged: "snd (memoryCache_SetNX marshal c now k v ttl) = c"
    if "\<not> fst (fst (memoryCache_SetNX marshal c now k v ttl))"
    using that
    by (cases "c k"; cases "marshal v")
       (auto simp add: memoryCache_SetNX_def split: if_splits)
  have twice: "fst (memoryCache_SetNX marshal c now k v1 ttl) = (True, None)
          \<and> memoryCache_SetNX marshal (snd (memoryCache_SetNX marshal c now k v1 ttl)) now' k v2 ttl2
              = ((False, None), snd (memoryCache_SetNX marshal c now k v1 ttl))
          \<and> memoryCache_Get unmarshal
               (snd (memoryCache_SetNX marshal
                       (snd (memoryCache_SetNX marshal c now k v1 ttl)) now' k v2 ttl2)) now' k
              = Inr v1"
    if "c k = None" and "marshal v1 = Inr b1" and "unmarshal b1 = Inr v1"
      and "0 < ttl \<longrightarrow> now' \<le> now + ttl"
  proof -
    let ?item1 = "\<lparr>item_value = b1, expiresAt = (if 0 < ttl then now + ttl else 0)\<rparr>"
    let ?c1 = "c(k \<mapsto> ?item1)"
    have first: "memoryCache_SetNX marshal c now k v1 ttl = ((True, None), ?c1)"
      using that by (simp add: memoryCache_SetNX_def)
    have live: "\<not> isExpired ?item1 now'"
      using that by (auto simp add: isExpired_def)
    have second: "memoryCache_SetNX marshal ?c1 now' k v2 ttl2 = ((False, None), ?c1)"
      using live by (simp add: memoryCache_SetNX_def)
    have get: "memoryCache_Get unmarshal ?c1 now' k = Inr v1"
      using live that by (simp add: memoryCache_Get_def)
    show ?thesis
      unfolding first snd_conv second using get by simp
  qed
  from present create only_if unchanged twice show ?thesis by blast
qed

theorem SetNX_creates_once_witness:
  "marshal_int64 1 = Inr ''1'' \<and> unmarshal_int64 ''1'' = Inr 1
   \<and> fst (memoryCache_SetNX marshal_int64 Map.empty 1000 ''key1'' 1 60) = (True, None)
   \<and> fst (memoryCache_SetNX marshal_int64
             (snd (memoryCache_SetNX marshal_int64 Map.empty 1000 ''key1'' 1 60))
             1001 ''key1'' 2 60) = (False, None)
   \<and> memoryCache_Get unmarshal_int64
        (snd (memoryCache_SetNX marshal_int64
                (snd (memoryCache_SetNX marshal_int64 Map.empty 1000 ''key1'' 1 60))
                1001 ''key1'' 2 60)) 1001 ''key1'' = Inr 1"
proof -
  have h1: "marshal_int64 1 = Inr ''1''" by (simp add: json_int64_simps)
  have h2: "unmarshal_int64 ''1'' = Inr 1" by (simp add: json_int64_simps)
  have h3: "(0::int) < 60 \<longrightarrow> (1001::int) \<le> 1000 + 60" by simp
  have h0: "(Map.empty :: memoryCache) ''key1'' = None" by simp
  note t = SetNX_creates_once [where c = Map.empty and k = "''key1''" and now = 1000
      and now' = 1001 and ttl = 60 and ?ttl2.0 = 60 and marshal = marshal_int64
      and unmarshal = unmarshal_int64 and ?v1.0 = 1 and ?b1.0 = "''1''" and ?v2.0 = 2
      and v = 1 and b = "''1''" and item = "\<lparr>item_value = ''1'', expiresAt = 0\<rparr>"]
  let ?first = "memoryCache_SetNX marshal_int64 Map.empty 1000 ''key1'' 1 60"
  let ?second = "memoryCache_SetNX marshal_int64 (snd ?first) 1001 ''key1'' 2 60"
  from t h0 h1 h2 h3
  have f: "fst ?first = (True, None) \<and> ?second = ((False, None), snd ?first)
      \<and> memoryCache_Get unmarshal_int64 (snd ?second) 1001 ''key1'' = Inr 1"
    by blast
  then have "fst ?second = (False, None)"
    by (metis fst_conv)
  with f h1 h2 show ?thesis by blast
qed



section \<open>Properties of the multi-level orchestrator\<close>

lemma fan_out_levels: "snd (fan_out m e ls) = map (\<lambda>l. snd (m l)) ls"
  by (induction ls arbitrary: e) (simp_all add: split_def)

lemma fan_out_all_ok:
  "\<forall>l\<in>set ls. fst (m l) = None \<Longrightarrow> fst (fan_out m e ls) = e"
  by (induction ls arbitrary: e) (simp_all add: split_def)

lemma fan_out_append:
  "fst (fan_out m e (xs @ ys)) = fst (fan_out m (fst (fan_out m e xs)) ys)"
  by (induction xs arbitrary: e) (simp_all add: split_def)

lemma fan_out_last_error:
  assumes "fst (m l) = Some err" and "\<forall>l'\<in>set post. fst (m l') = None"
  shows "fst (fan_out m e (pre @ l # post)) = Some err"
proof -
  have "fst (fan_out m e' (l # post)) = Some err" for e'
    using assms by (simp add: split_def fan_out_all_ok)
  then show ?thesis by (simp only: fan_out_append)
qed

lemma fan_out_error_from_tier:
  "fst (fan_out m e ls) = Some err \<Longrightarrow> e = Some err \<or> (\<exists>l\<in>set ls. fst (m l) = Some err)"
proof (induction ls arbitrary: e)
  case Nil
  then show ?case by simp
next
  case (Cons l ls)
  obtain err1 l1 where m: "m l = (err1, l1)" by (cases "m l")
  show ?case
  proof (cases err1)
    case None
    with Cons.prems m have "fst (fan_out m e ls) = Some err"
      by (simp add: split_def)
    from Cons.IH [OF this] show ?thesis by auto
  next
    case (Some e1)
    with Cons.prems m have "fst (fan_out m (Some e1) ls) = Some err"
      by (simp add: split_def)
    from Cons.IH [OF this] Some m show ?thesis by auto
  qed
qed

lemma on_tier_eta:
  "on_tier (DoSet k v ttl) = on_level (\<lambda>i. iSet i k v ttl)"
  "on_tier (DoMSet items ttl) = on_level (\<lambda>i. iMSet i items ttl)"
  "on_tier (DoDelete k) = on_level (\<lambda>i. iDelete i k)"
  "on_tier (DoMDelete ks) = on_level (\<lambda>i. iMDelete i ks)"
  "on_tier (DoExpire k ttl) = on_level (\<lambda>i. iExpire i k ttl)"
  by (rule ext, simp)+

lemma multiLevelCache_do_fan_out:
  "multiLevelCache_do mu c = fan_out (on_tier mu) None c"
  by (cases mu)
     (simp_all only: multiLevelCache_do.simps on_tier_eta multiLevelCache_Set_def
        multiLevelCache_MSet_def multiLevelCache_Delete_def multiLevelCache_MDelete_def
        multiLevelCache_Expire_def)

text \<open>
  C7. For each of the fan-out mutations \<open>Set\<close>, \<open>MSet\<close>, \<open>Delete\<close>, \<open>MDelete\<close> and
  \<open>Expire\<close>: every configured tier receives the call, whatever the tiers before it
  returned (the state of each tier afterwards is the state its own call leaves); the
  returned error is nil when no tier fails, and otherwise it is the error of the last
  failing tier, whatever the tiers before that one returned.
\<close>

theorem fan_out_returns_last_error:
  "snd (multiLevelCache_do mu c) = map (\<lambda>l. snd (on_tier mu l)) c
   \<and> ((\<forall>l\<in>set c. fst (on_tier mu l) = None) \<longrightarrow> fst (multiLevelCache_do mu c) = None)
   \<and> (fst (on_tier mu l) = Some err \<and> (\<forall>l'\<in>set post. fst (on_tier mu l') = None)
        \<longrightarrow> fst (multiLevelCache_do mu (pre @ l # post)) = Some err)"
  by (simp add: multiLevelCache_do_fan_out fan_out_levels fan_out_all_ok fan_out_last_error)


lemmas tier_simps = on_level_def memoryCache_tier_def unreachable_tier_def

theorem fan_out_returns_last_error_witness:
  "fst (on_tier (DoSet ''key1'' (5 :: 64 word) 60)
          (unreachable_tier (ErrorString ''i/o timeout''), Map.empty :: memoryCache))
     = Some (ErrorString ''i/o timeout'')
   \<and> fst (multiLevelCache_do (DoSet ''key1'' 5 60)
            [(unreachable_tier (ErrorString ''connection refused''), Map.empty),
             (memoryCache_tier marshal_int64 unmarshal_int64 1000, Map.empty),
             (unreachable_tier (ErrorString ''i/o timeout''), Map.empty)])
       = Some (ErrorString ''i/o timeout'')
   \<and> map (\<lambda>l. map_option item_value (snd l ''key1''))
        (snd (multiLevelCache_do (DoSet ''key1'' 5 60)
            [(unreachable_tier (ErrorString ''connection refused''), Map.empty),
             (memoryCache_tier marshal_int64 unmarshal_int64 1000, Map.empty),
             (unreachable_tier (ErrorString ''i/o timeout''), Map.empty)]))
       = [None, Some ''5'', None]
   \<and> fst (multiLevelCache_do (DoSet ''key1'' 5 60)
            [(memoryCache_tier marshal_int64 unmarshal_int64 1000, Map.empty)]) = None"
proof -
  let ?mu = "DoSet ''key1'' (5 :: 64 word) 60"
  let ?t0 = "(unreachable_tier (ErrorString ''connection refused''), Map.empty)
               :: (memoryCache, 64 word) level"
  let ?t1 = "(memoryCache_tier marshal_int64 unmarshal_int64 1000, Map.empty)
               :: (memoryCache, 64 word) level"
  let ?t2 = "(unreachable_tier (ErrorString ''i/o timeout''), Map.empty)
               :: (memoryCache, 64 word) level"
  have h2: "fst (on_tier ?mu ?t2) = Some (ErrorString ''i/o timeout'')"
    by (simp add: tier_simps)
  have h1: "\<forall>l\<in>set [?t1]. fst (on_tier ?mu l) = None"
    by (simp add: tier_simps memoryCache_Set_def marshal_int64_def)
  have hp: "\<forall>l'\<in>set ([] :: (memoryCache, 64 word) level list). fst (on_tier ?mu l') = None"
    by simp
  note t = fan_out_returns_last_error [where mu = ?mu and l = ?t2
      and err = "ErrorString ''i/o timeout''" and post = "[]" and pre = "[?t0, ?t1]"]
  from t [where c = "[?t0, ?t1, ?t2]"] h2 hp
  have a: "fst (multiLevelCache_do ?mu ([?t0, ?t1] @ ?t2 # [])) = Some (ErrorString ''i/o timeout'')"
    by blast
  from t [where c = "[?t0, ?t1, ?t2]"]
  have "snd (multiLevelCache_do ?mu [?t0, ?t1, ?t2]) = map (\<lambda>l. snd (on_tier ?mu l)) [?t0, ?t1, ?t2]"
    by blast
  then have b: "map (\<lambda>l. map_option item_value (snd l ''key1''))
        (snd (multiLevelCache_do ?mu [?t0, ?t1, ?t2])) = [None, Some ''5'', None]"
    by (simp add: tier_simps memoryCache_Set_def json_int64_simps)
  from t [where c = "[?t1]"] h1
  have c: "fst (multiLevelCache_do ?mu [?t1]) = None"
    by blast
  from a b c h2 show ?thesis by simp
qed


lemma Get_loop_misses:
  "\<forall>l\<in>set pre. \<exists>e. fst (on_level (\<lambda>i. iGet i k) l) = Inl e
   \<Longrightarrow> Get_loop visited (pre @ rest) k
       = Get_loop (visited @ map (\<lambda>l. snd (on_level (\<lambda>i. iGet i k) l)) pre) rest k"
proof (induction pre arbitrary: visited)
  case Nil
  then show ?case by simp
next
  case (Cons l pre)
  from Cons.prems obtain e where "fst (on_level (\<lambda>i. iGet i k) l) = Inl e" by auto
  then have step: "Get_loop visited ((l # pre) @ rest) k
      = Get_loop (visited @ [snd (on_level (\<lambda>i. iGet i k) l)]) (pre @ rest) k"
    by (cases "on_level (\<lambda>i. iGet i k) l") simp
  from Cons.prems have "\<forall>l\<in>set pre. \<exists>e. fst (on_level (\<lambda>i. iGet i k) l) = Inl e" by simp
  from Cons.IH [OF this] step show ?case by simp
qed





lemma Get_loop_error:
  "fst (Get_loop visited ls k) = Inl e \<Longrightarrow> e = NotFoundError k"
proof (induction ls arbitrary: visited)
  case Nil
  then show ?case by simp
next
  case (Cons l ls)
  obtain r l1 where g: "on_level (\<lambda>i. iGet i k) l = (r, l1)"
    by (cases "on_level (\<lambda>i. iGet i k) l")
  show ?case
  proof (cases r)
    case (Inl err)
    with Cons.prems g have "fst (Get_loop (visited @ [l1]) ls k) = Inl e" by simp
    then show ?thesis by (rule Cons.IH)
  next
    case (Inr v)
    with Cons.prems g show ?thesis
      by (simp add: split_def split: if_splits)
  qed
qed

lemma Get_loop_all_miss:
  "\<forall>l\<in>set ls. \<exists>e. fst (on_level (\<lambda>i. iGet i k) l) = Inl e
   \<Longrightarrow> fst (Get_loop visited ls k) = Inl (NotFoundError k)"
  using Get_loop_misses [of ls k visited "[]"] by simp

text \<open>
  C3, as amended. \<open>Get\<close> never surfaces the error of a tier: the only error it returns is
  the \<open>NotFoundError\<close> of the key, and it returns it whenever every tier fails, with a
  not-found or with a backend error alike. An error returned by a fan-out mutation is
  the error that one of the tiers returned, unchanged; \<open>IncrBy\<close> and \<open>TTL\<close> return what
  the last tier returns, its error included.
\<close>

theorem Get_never_surfaces_tier_error:
  "(fst (multiLevelCache_Get c k) = Inl e \<longrightarrow> e = NotFoundError k)
   \<and> ((\<forall>l\<in>set c. \<exists>e'. fst (on_level (\<lambda>i. iGet i k) l) = Inl e')
        \<longrightarrow> fst (multiLevelCache_Get c k) = Inl (NotFoundError k))
   \<and> (fst (multiLevelCache_do mu c) = Some e
        \<longrightarrow> (\<exists>l\<in>set c. fst (on_tier mu l) = Some e))
   \<and> (c \<noteq> []
        \<longrightarrow> fst (multiLevelCache_IncrBy c k d) = fst (on_level (\<lambda>i. iIncrBy i k d) (last c))
          \<and> fst (multiLevelCache_TTL c k) = fst (on_level (\<lambda>i. iTTL i k) (last c)))"
proof -
  have a: "fst (multiLevelCache_Get c k) = Inl e \<longrightarrow> e = NotFoundError k"
    unfolding multiLevelCache_Get_def using Get_loop_error by blast
  have b: "(\<forall>l\<in>set c. \<exists>e'. fst (on_level (\<lambda>i. iGet i k) l) = Inl e')
        \<longrightarrow> fst (multiLevelCache_Get c k) = Inl (NotFoundError k)"
    unfolding multiLevelCache_Get_def using Get_loop_all_miss by blast
  have c: "fst (multiLevelCache_do mu c) = Some e
        \<longrightarrow> (\<exists>l\<in>set c. fst (on_tier mu l) = Some e)"
    unfolding multiLevelCache_do_fan_out using fan_out_error_from_tier by fastforce
  have d: "c \<noteq> []
        \<longrightarrow> fst (multiLevelCache_IncrBy c k d) = fst (on_level (\<lambda>i. iIncrBy i k d) (last c))
          \<and> fst (multiLevelCache_TTL c k) = fst (on_level (\<lambda>i. iTTL i k) (last c))"
    by (simp add: multiLevelCache_IncrBy_def multiLevelCache_TTL_def split_def)
  from a b c d show ?thesis by blast
qed

text \<open>
  C3, as stated, at the tiers \<open>[in-process store (empty), unreachable backend]\<close>: the
  second tier's \<open>Get\<close> fails with the driver's error \<open>connection refused\<close>, which is not a
  not-found, no tier hits, and the caller receives the \<open>NotFoundError\<close> of the key, not
  the backend error.
\<close>

theorem Get_hides_backend_error:
  "fst (on_level (\<lambda>i. iGet i ''x'')
          (unreachable_tier (ErrorString ''connection refused'') :: (memoryCache, 64 word) Cache,
           Map.empty))
     = Inl (ErrorString ''connection refused'')
   \<and> \<not> IsNotFound (Some (ErrorString ''connection refused''))
   \<and> fst (multiLevelCache_Get
            [(memoryCache_tier marshal_int64 unmarshal_int64 1000, Map.empty),
             (unreachable_tier (ErrorString ''connection refused''), Map.empty)] ''x'')
       = Inl (NotFoundError ''x'')
   \<and> fst (multiLevelCache_Get
            [(memoryCache_tier marshal_int64 unmarshal_int64 1000, Map.empty),
             (unreachable_tier (ErrorString ''connection refused''), Map.empty)] ''x'')
       \<noteq> Inl (ErrorString ''connection refused'')"
  by (simp add: multiLevelCache_Get_def tier_simps memoryCache_Get_def IsNotFound_def)

theorem Get_never_surfaces_tier_error_witness:
  "fst (multiLevelCache_Get
          [(memoryCache_tier marshal_int64 unmarshal_int64 1000, Map.empty),
           (unreachable_tier (ErrorString ''connection refused''), Map.empty)] ''x'')
     = Inl (NotFoundError ''x'')
   \<and> fst (multiLevelCache_IncrBy
          [(memoryCache_tier marshal_int64 unmarshal_int64 1000, Map.empty),
           (unreachable_tier (ErrorString ''connection refused''), Map.empty)] ''x'' 5)
     = (0, Some (ErrorString ''connection refused''))
   \<and> fst (multiLevelCache_TTL
          [(memoryCache_tier marshal_int64 unmarshal_int64 1000, Map.empty),
           (unreachable_tier (ErrorString ''connection refused''), Map.empty)] ''x'')
     = (0, Some (ErrorString ''connection refused''))
   \<and> fst (multiLevelCache_do (DoDelete ''x'')
          [(memoryCache_tier marshal_int64 unmarshal_int64 1000, Map.empty),
           (unreachable_tier (ErrorString ''connection refused''), Map.empty)])
     = Some (ErrorString ''connection refused'')"
proof -
  let ?l1 = "(memoryCache_tier marshal_int64 unmarshal_int64 1000, Map.empty)
               :: (memoryCache, 64 word) level"
  let ?down = "(unreachable_tier (ErrorString ''connection refused''), Map.empty)
                 :: (memoryCache, 64 word) level"
  let ?c = "[?l1, ?down]"
  have miss: "\<forall>l\<in>set ?c. \<exists>e'. fst (on_level (\<lambda>i. iGet i ''x'') l) = Inl e'"
    by (simp add: tier_simps memoryCache_Get_def)
  have ne: "?c \<noteq> []" by simp
  have del: "fst (multiLevelCache_do (DoDelete ''x'') ?c) = Some (ErrorString ''connection refused'')"
    by (simp add: multiLevelCache_Delete_def tier_simps memoryCache_Delete_def)
  note t = Get_never_surfaces_tier_error [where c = ?c and k = "''x''" and d = 5
      and mu = "DoDelete ''x''" and e = "ErrorString ''connection refused''"]
  from t miss have a: "fst (multiLevelCache_Get ?c ''x'') = Inl (NotFoundError ''x'')"
    by blast
  from t ne have "fst (multiLevelCache_IncrBy ?c ''x'' 5)
        = fst (on_level (\<lambda>i. iIncrBy i ''x'' 5) (last ?c))
      \<and> fst (multiLevelCache_TTL ?c ''x'') = fst (on_level (\<lambda>i. iTTL i ''x'') (last ?c))"
    by blast
  then have b: "fst (multiLevelCache_IncrBy ?c ''x'' 5) = (0, Some (ErrorString ''connection refused''))
      \<and> fst (multiLevelCache_TTL ?c ''x'') = (0, Some (ErrorString ''connection refused''))"
    by (simp add: tier_simps)
  from t del have "\<exists>l\<in>set ?c. fst (on_tier (DoDelete ''x'') l) = Some (ErrorString ''connection refused'')"
    by blast
  with a b del show ?thesis by simp
qed

end
